theory Spec2Isabelle
  imports Main "HOL-Library.Word"
begin

section \<open>Two-way channels between a master and a worker thread (util/channel.c)\<close>

text \<open>
  A shallow embedding of \<^verbatim>\<open>src/util/channel.c\<close>. Every C function becomes a HOL
  function of the same name that takes the memory it reads and returns the memory it
  leaves behind. The memory (\<open>fr_world\<close>) holds the channels, indexed by their address,
  and the control-plane queues of the threads, indexed by their address, since a channel
  only stores pointers to the latter (\<^verbatim>\<open>aq_control\<close>, \<^verbatim>\<open>control\<close>) and a control record
  stores a pointer to its channel.
\<close>

subsection \<open>Machine types\<close>

type_synonym uint64_t = "64 word"
type_synonym size_t = "64 word"

text \<open>
  \<^verbatim>\<open>int\<close>: 32 bits, read as two's complement by \<open>sint\<close>, \<open><s\<close> and \<open><=s\<close>. An
  increment past the largest value, which C leaves undefined, wraps around here.
  \<^verbatim>\<open>size_t\<close> is taken as 64 bits wide.
\<close>
type_synonym c_int = "32 word"

text \<open>\<^verbatim>\<open>typedef uint64_t fr_time_t\<close> (util/time.h): nanoseconds since the start.\<close>
type_synonym fr_time_t = "64 word"

text \<open>Addresses of channels and of control-plane atomic queues.\<close>
type_synonym ch_ref = nat
type_synonym aq_ref = nat

subsection \<open>Build configuration\<close>

text \<open>
  Two preprocessor symbols decide what is compiled: \<^verbatim>\<open>NDEBUG\<close> (assertions off) and
  \<^verbatim>\<open>__APPLE__\<close> (the extra early exit of \<^verbatim>\<open>fr_channel_send_reply\<close>).
\<close>

record fr_build =
  ndebug :: bool
  apple :: bool

text \<open>
  What stops a call before it returns: a failed \<^verbatim>\<open>rad_assert\<close>, or the use of a
  control plane that was never created (a NULL \<^verbatim>\<open>control\<close> pointer).
\<close>

datatype fr_fault = Assert_failed | Null_control

text \<open>
  Modelled from the spec: the macro \<^verbatim>\<open>rad_assert\<close> (rad_assert.h is not part of the
  sources). Section 7: a violated protocol invariant must "assert/panic in debug builds
  and may proceed" otherwise. \<open>rad_assert b c\<close> tells whether execution continues after
  an assertion of condition \<open>c\<close>.
\<close>

definition rad_assert :: "fr_build \<Rightarrow> bool \<Rightarrow> bool" where
  "rad_assert b c = (ndebug b \<or> c)"

subsection \<open>The atomic queue (external)\<close>

text \<open>
  Modelled from the spec: \<^verbatim>\<open>fr_atomic_queue_create\<close>, \<^verbatim>\<open>fr_atomic_queue_push\<close> and
  \<^verbatim>\<open>fr_atomic_queue_pop\<close> (the atomic queue is not part of the sources). Section 6: a
  bounded FIFO queue of handles; "push may fail only when full"; pop returns a handle or
  nothing.
\<close>

record 'a fr_atomic_queue_t =
  aq_size :: nat
  aq_entries :: "'a list"

definition fr_atomic_queue_create :: "nat \<Rightarrow> 'a fr_atomic_queue_t" where
  "fr_atomic_queue_create n = \<lparr>aq_size = n, aq_entries = []\<rparr>"

definition fr_atomic_queue_push :: "'a fr_atomic_queue_t \<Rightarrow> 'a \<Rightarrow> 'a fr_atomic_queue_t option" where
  "fr_atomic_queue_push q x =
     (if length (aq_entries q) < aq_size q
      then Some (q\<lparr>aq_entries := aq_entries q @ [x]\<rparr>)
      else None)"

definition fr_atomic_queue_pop :: "'a fr_atomic_queue_t \<Rightarrow> ('a \<times> 'a fr_atomic_queue_t) option" where
  "fr_atomic_queue_pop q =
     (case aq_entries q of
        [] \<Rightarrow> None
      | x # xs \<Rightarrow> Some (x, q\<lparr>aq_entries := xs\<rparr>))"

subsection \<open>Constants, signals and events\<close>

definition SIGNAL_INTERVAL :: uint64_t where
  "SIGNAL_INTERVAL = 1000000"

definition ATOMIC_QUEUE_SIZE :: nat where
  "ATOMIC_QUEUE_SIZE = 1024"

definition IALPHA :: uint64_t where
  "IALPHA = 8"

text \<open>\<^verbatim>\<open>#define RTT(_old, _new) ((_old + ((IALPHA - 1) * _new)) / IALPHA)\<close> on 64-bit
  unsigned operands: sum and product wrap around, the division truncates.\<close>

definition RTT :: "uint64_t \<Rightarrow> uint64_t \<Rightarrow> uint64_t" where
  "RTT old new = (old + ((IALPHA - 1) * new)) div IALPHA"

text \<open>
  Modelled from the spec: \<^verbatim>\<open>fr_channel_event_t\<close> (channel.h is not part of the sources).
  Section 6 lists the events in order; the first five have the numbers of the first five
  signals.
\<close>

datatype fr_channel_event_t =
  FR_CHANNEL_ERROR
| FR_CHANNEL_DATA_READY_WORKER
| FR_CHANNEL_DATA_READY_RECEIVER
| FR_CHANNEL_OPEN
| FR_CHANNEL_CLOSE
| FR_CHANNEL_NOOP
| FR_CHANNEL_EMPTY

datatype fr_channel_signal_t =
  FR_CHANNEL_SIGNAL_ERROR
| FR_CHANNEL_SIGNAL_DATA_TO_WORKER
| FR_CHANNEL_SIGNAL_DATA_FROM_WORKER
| FR_CHANNEL_SIGNAL_OPEN
| FR_CHANNEL_SIGNAL_CLOSE
| FR_CHANNEL_SIGNAL_DATA_DONE_WORKER
| FR_CHANNEL_SIGNAL_WORKER_SLEEPING

text \<open>The two indices of \<^verbatim>\<open>ch->end[]\<close>: \<^verbatim>\<open>TO_WORKER (0)\<close> and \<^verbatim>\<open>FROM_WORKER (1)\<close>.\<close>

datatype fr_end_index = TO_WORKER | FROM_WORKER

definition end_number :: "fr_end_index \<Rightarrow> uint64_t" where
  "end_number e = (case e of TO_WORKER \<Rightarrow> 0 | FROM_WORKER \<Rightarrow> 1)"

subsection \<open>Messages, control records, channel ends, channels\<close>

text \<open>
  Modelled from the spec: \<^verbatim>\<open>fr_channel_data_t\<close> (channel.h is not part of the sources).
  Section 3: a message carries \<open>sequence\<close>, \<open>ack\<close> and a timestamp \<open>when\<close>, and a
  reply carries \<open>processing_time\<close> and \<open>cpu_time\<close> in addition. The names are those
  of the fields that channel.c reads and writes: \<^verbatim>\<open>m.when\<close>, \<^verbatim>\<open>live.sequence\<close>,
  \<^verbatim>\<open>live.ack\<close>, \<^verbatim>\<open>reply.processing_time\<close>, \<^verbatim>\<open>reply.cpu_time\<close>.
\<close>

record fr_channel_data_t =
  m_when :: fr_time_t
  live_sequence :: uint64_t
  live_ack :: uint64_t
  reply_processing_time :: fr_time_t
  reply_cpu_time :: fr_time_t

record fr_channel_control_t =
  cc_signal :: fr_channel_signal_t
  cc_ack :: uint64_t
  cc_ch :: ch_ref

text \<open>
  Modelled from the spec: \<^verbatim>\<open>fr_control_t\<close> and \<^verbatim>\<open>fr_control_create\<close> (control.c is not
  part of the sources). Section 4.1: a control plane is a control queue and the notifier
  of the thread that reads it. Creation is an allocation and may fail; \<open>ok\<close> is its
  outcome.
\<close>

record fr_control_t =
  c_kq :: c_int
  c_aq :: aq_ref

definition fr_control_create :: "bool \<Rightarrow> c_int \<Rightarrow> aq_ref \<Rightarrow> fr_control_t option" where
  "fr_control_create ok k a = (if ok then Some \<lparr>c_kq = k, c_aq = a\<rparr> else None)"

record fr_channel_end_t =
  kq :: c_int
  aq_control :: aq_ref
  control :: "fr_control_t option"
  ctx :: "nat option"
  num_outstanding :: c_int
  num_signals :: size_t
  num_resignals :: size_t
  num_kevents :: size_t
  sequence :: uint64_t
  ack :: uint64_t
  sequence_at_last_signal :: uint64_t
  last_write :: fr_time_t
  last_read_other :: fr_time_t
  message_interval :: fr_time_t
  last_sent_signal :: fr_time_t
  aq :: "fr_channel_data_t fr_atomic_queue_t"

text \<open>\<^verbatim>\<open>end[2]\<close> is the pair of fields \<open>end_TO_WORKER\<close> (index 0) and
  \<open>end_FROM_WORKER\<close> (index 1).\<close>

record fr_channel_t =
  cpu_time :: fr_time_t
  processing_time :: fr_time_t
  active :: bool
  end_TO_WORKER :: fr_channel_end_t
  end_FROM_WORKER :: fr_channel_end_t

record fr_world =
  channels :: "ch_ref \<Rightarrow> fr_channel_t"
  control_queues :: "aq_ref \<Rightarrow> fr_channel_control_t fr_atomic_queue_t"

text \<open>\<^verbatim>\<open>ch->end[e]\<close>, read and written.\<close>

definition ch_end :: "fr_channel_t \<Rightarrow> fr_end_index \<Rightarrow> fr_channel_end_t" where
  "ch_end c e = (case e of TO_WORKER \<Rightarrow> end_TO_WORKER c | FROM_WORKER \<Rightarrow> end_FROM_WORKER c)"

definition ch_end_update :: "fr_end_index \<Rightarrow> fr_channel_end_t \<Rightarrow> fr_channel_t \<Rightarrow> fr_channel_t" where
  "ch_end_update e x c =
     (case e of TO_WORKER \<Rightarrow> c\<lparr>end_TO_WORKER := x\<rparr> | FROM_WORKER \<Rightarrow> c\<lparr>end_FROM_WORKER := x\<rparr>)"

text \<open>\<^verbatim>\<open>*ch\<close>, written.\<close>

definition store_channel :: "fr_world \<Rightarrow> ch_ref \<Rightarrow> fr_channel_t \<Rightarrow> fr_world" where
  "store_channel w ch c = w\<lparr>channels := (channels w)(ch := c)\<rparr>"

definition store_end :: "fr_world \<Rightarrow> ch_ref \<Rightarrow> fr_end_index \<Rightarrow> fr_channel_end_t \<Rightarrow> fr_world" where
  "store_end w ch e x = store_channel w ch (ch_end_update e x (channels w ch))"

subsection \<open>The control plane (external)\<close>

text \<open>
  Modelled from the spec: \<^verbatim>\<open>fr_control_message_send\<close> and \<^verbatim>\<open>fr_control_message_pop\<close>
  (control.c is not part of the sources). Section 4.1: "send(record) returns success or
  failure (queue full)"; "pop() is non-blocking and returns either a record or empty".
  Success is 0 and failure is -1, the "<0 on error" of the functions that return its
  result. Firing the notifier leaves no trace in the memory of the channel.
\<close>

definition fr_control_message_send ::
  "fr_world \<Rightarrow> fr_control_t option \<Rightarrow> fr_channel_control_t \<Rightarrow> fr_fault + (int \<times> fr_world)" where
  "fr_control_message_send w c cc =
     (case c of
        None \<Rightarrow> Inl Null_control
      | Some ctl \<Rightarrow>
          (case fr_atomic_queue_push (control_queues w (c_aq ctl)) cc of
             None \<Rightarrow> Inr (- 1, w)
           | Some q \<Rightarrow> Inr (0, w\<lparr>control_queues := (control_queues w)(c_aq ctl := q)\<rparr>)))"

definition fr_control_message_pop ::
  "fr_world \<Rightarrow> aq_ref \<Rightarrow> (fr_channel_control_t \<times> fr_world) option" where
  "fr_control_message_pop w a =
     (case fr_atomic_queue_pop (control_queues w a) of
        None \<Rightarrow> None
      | Some (cc, q) \<Rightarrow> Some (cc, w\<lparr>control_queues := (control_queues w)(a := q)\<rparr>))"

subsection \<open>fr_channel_create\<close>

text \<open>
  \<^verbatim>\<open>talloc_zero\<close> gives a channel whose fields are all zero. The data queues are part of
  the channel end here, so the zeroed end takes the queue that \<^verbatim>\<open>fr_channel_create\<close>
  stores in it.
\<close>

definition fr_channel_end_zero :: "fr_channel_data_t fr_atomic_queue_t \<Rightarrow> fr_channel_end_t" where
  "fr_channel_end_zero q =
     \<lparr>kq = 0, aq_control = 0, control = None, ctx = None, num_outstanding = 0,
      num_signals = 0, num_resignals = 0, num_kevents = 0, sequence = 0, ack = 0,
      sequence_at_last_signal = 0, last_write = 0, last_read_other = 0,
      message_interval = 0, last_sent_signal = 0, aq = q\<rparr>"

text \<open>
  The outcomes of the allocations are arguments: \<open>p\<close> is what \<^verbatim>\<open>talloc_zero\<close> returns
  (the address of the new channel, or NULL), \<open>aq0_ok\<close> and \<open>aq1_ok\<close> whether the two
  \<^verbatim>\<open>fr_atomic_queue_create\<close> succeed, \<open>control_ok\<close> whether \<^verbatim>\<open>fr_control_create\<close>
  does; \<open>now\<close> is what \<^verbatim>\<open>fr_time()\<close> returns. A failure frees the channel and returns
  NULL.
\<close>

definition fr_channel_create ::
  "fr_world \<Rightarrow> ch_ref option \<Rightarrow> bool \<Rightarrow> bool \<Rightarrow> bool \<Rightarrow> fr_time_t \<Rightarrow>
   c_int \<Rightarrow> aq_ref \<Rightarrow> c_int \<Rightarrow> aq_ref \<Rightarrow> ch_ref option \<times> fr_world" where
  "fr_channel_create w p aq0_ok aq1_ok control_ok now kq_master aq_master kq_worker aq_worker =
     (case p of
        None \<Rightarrow> (None, w)
      | Some ch \<Rightarrow>
          if \<not> aq0_ok then (None, w)
          else if \<not> aq1_ok then (None, w)
          else
            let when = now;
                e0 = (fr_channel_end_zero (fr_atomic_queue_create ATOMIC_QUEUE_SIZE))
                       \<lparr>kq := kq_worker, aq_control := aq_worker,
                        last_write := when, last_read_other := when, last_sent_signal := when\<rparr>;
                e1 = (fr_channel_end_zero (fr_atomic_queue_create ATOMIC_QUEUE_SIZE))
                       \<lparr>kq := kq_master, aq_control := aq_master,
                        last_write := when, last_read_other := when, last_sent_signal := when\<rparr>;
                c0 = fr_control_create control_ok (kq e0) (aq_control e0)
            in if c0 = None then (None, w)
               else
                 (Some ch,
                  store_channel w ch
                    \<lparr>cpu_time = 0, processing_time = 0, active = True,
                     end_TO_WORKER = e0\<lparr>control := c0\<rparr>, end_FROM_WORKER = e1\<rparr>))"

subsection \<open>fr_channel_data_ready\<close>

text \<open>
  \<open>e\<close> says which end of \<open>ch\<close> the pointer \<^verbatim>\<open>end\<close> is: every caller passes
  \<^verbatim>\<open>&ch->end[TO_WORKER]\<close> or \<^verbatim>\<open>&ch->end[FROM_WORKER]\<close>.
\<close>

definition fr_channel_data_ready ::
  "fr_world \<Rightarrow> ch_ref \<Rightarrow> fr_time_t \<Rightarrow> fr_end_index \<Rightarrow> fr_channel_signal_t \<Rightarrow>
   fr_fault + (int \<times> fr_world)" where
  "fr_channel_data_ready w ch when e which =
     (let end0 = ch_end (channels w ch) e;
          end1 = end0\<lparr>last_sent_signal := when, num_signals := num_signals end0 + 1\<rparr>;
          w1 = store_end w ch e end1;
          cc = \<lparr>cc_signal = which, cc_ack = ack end1, cc_ch = ch\<rparr>
      in fr_control_message_send w1 (control end1) cc)"

text \<open>
  The result of a signal, returned together with the message that the caller gets through
  its out-parameter (\<^verbatim>\<open>*p_reply\<close>, \<^verbatim>\<open>*p_request\<close>).
\<close>

definition with_piggyback ::
  "'a \<Rightarrow> fr_fault + (int \<times> fr_world) \<Rightarrow> fr_fault + (int \<times> 'a \<times> fr_world)" where
  "with_piggyback r x = (case x of Inl f \<Rightarrow> Inl f | Inr (rcode, w) \<Rightarrow> Inr (rcode, r, w))"

subsection \<open>fr_channel_recv_reply and fr_channel_recv_request\<close>

definition fr_channel_recv_reply ::
  "fr_build \<Rightarrow> fr_world \<Rightarrow> ch_ref \<Rightarrow> fr_fault + (fr_channel_data_t option \<times> fr_world)" where
  "fr_channel_recv_reply b w ch =
     (let c = channels w ch;
          master = end_TO_WORKER c
      in case fr_atomic_queue_pop (aq (end_FROM_WORKER c)) of
           None \<Rightarrow> Inr (None, w)
         | Some (cd, q) \<Rightarrow>
             let c1 = c\<lparr>end_FROM_WORKER := (end_FROM_WORKER c)\<lparr>aq := q\<rparr>,
                        processing_time := RTT (processing_time c) (reply_processing_time cd),
                        cpu_time := reply_cpu_time cd\<rparr>
             in if \<not> rad_assert b (0 <s num_outstanding master) then Inl Assert_failed
                else if \<not> rad_assert b (ack master < live_sequence cd) then Inl Assert_failed
                else if \<not> rad_assert b (live_sequence cd \<le> sequence master) then Inl Assert_failed
                else
                  let master1 = master\<lparr>num_outstanding := num_outstanding master - 1,
                                       ack := live_sequence cd\<rparr>
                  in if \<not> rad_assert b (last_read_other master1 \<le> m_when cd) then Inl Assert_failed
                     else Inr (Some cd,
                               store_channel w ch
                                 (c1\<lparr>end_TO_WORKER := master1\<lparr>last_read_other := m_when cd\<rparr>\<rparr>)))"

definition fr_channel_recv_request ::
  "fr_build \<Rightarrow> fr_world \<Rightarrow> ch_ref \<Rightarrow> fr_fault + (fr_channel_data_t option \<times> fr_world)" where
  "fr_channel_recv_request b w ch =
     (let c = channels w ch;
          worker = end_FROM_WORKER c
      in case fr_atomic_queue_pop (aq (end_TO_WORKER c)) of
           None \<Rightarrow> Inr (None, w)
         | Some (cd, q) \<Rightarrow>
             let c1 = c\<lparr>end_TO_WORKER := (end_TO_WORKER c)\<lparr>aq := q\<rparr>\<rparr>
             in if \<not> rad_assert b (ack worker < live_sequence cd) then Inl Assert_failed
                else if \<not> rad_assert b (sequence worker \<le> live_sequence cd) then Inl Assert_failed
                else
                  let worker1 = worker\<lparr>num_outstanding := num_outstanding worker + 1,
                                       ack := live_sequence cd\<rparr>
                  in if \<not> rad_assert b (last_read_other worker1 \<le> m_when cd) then Inl Assert_failed
                     else Inr (Some cd,
                               store_channel w ch
                                 (c1\<lparr>end_FROM_WORKER := worker1\<lparr>last_read_other := m_when cd\<rparr>\<rparr>)))"

subsection \<open>fr_channel_send_request\<close>

text \<open>
  \<open>p_reply\<close> is what \<^verbatim>\<open>*p_reply\<close> holds before the call: the path on which
  \<^verbatim>\<open>num_outstanding\<close> is below 1 after the increment does not assign it. The message
  that is pushed is \<open>cd\<close> with \<^verbatim>\<open>live.sequence\<close> and \<^verbatim>\<open>live.ack\<close> stamped. The result is
  the return code, \<^verbatim>\<open>*p_reply\<close> and the memory.
\<close>

definition fr_channel_send_request ::
  "fr_build \<Rightarrow> fr_world \<Rightarrow> ch_ref \<Rightarrow> fr_channel_data_t \<Rightarrow> fr_channel_data_t option \<Rightarrow>
   fr_fault + (int \<times> fr_channel_data_t option \<times> fr_world)" where
  "fr_channel_send_request b w ch cd p_reply =
     (let master = end_TO_WORKER (channels w ch);
          when = m_when cd;
          sequence1 = sequence master + 1;
          cd1 = cd\<lparr>live_sequence := sequence1, live_ack := ack master\<rparr>
      in case fr_atomic_queue_push (aq master) cd1 of
           None \<Rightarrow>
             (case fr_channel_recv_reply b w ch of
                Inl f \<Rightarrow> Inl f
              | Inr (r, w1) \<Rightarrow> Inr (- 1, r, w1))
         | Some q \<Rightarrow>
             let message_interval1 = when - last_write master;
                 master1 = master\<lparr>aq := q, sequence := sequence1,
                                  message_interval := RTT (message_interval master) message_interval1\<rparr>
             in if \<not> rad_assert b (last_write master1 \<le> when) then Inl Assert_failed
                else
                  let master2 = master1\<lparr>last_write := when,
                                        num_outstanding := num_outstanding master1 + 1\<rparr>;
                      w1 = store_end w ch TO_WORKER master2
                  in if num_outstanding master2 = 1 then
                       with_piggyback None
                         (fr_channel_data_ready w1 ch when TO_WORKER FR_CHANNEL_SIGNAL_DATA_TO_WORKER)
                     else if 1 <s num_outstanding master2 then
                       (case fr_channel_recv_reply b w1 ch of
                          Inl f \<Rightarrow> Inl f
                        | Inr (r, w2) \<Rightarrow>
                            if r = None \<or>
                               (r \<noteq> None \<and> 1 <s num_outstanding (end_TO_WORKER (channels w2 ch)))
                            then Inr (0, r, w2)
                            else with_piggyback r
                                   (fr_channel_data_ready w2 ch when TO_WORKER
                                      FR_CHANNEL_SIGNAL_DATA_TO_WORKER))
                     else
                       with_piggyback p_reply
                         (fr_channel_data_ready w1 ch when TO_WORKER FR_CHANNEL_SIGNAL_DATA_TO_WORKER))"

subsection \<open>fr_channel_send_reply\<close>

definition fr_channel_send_reply ::
  "fr_build \<Rightarrow> fr_world \<Rightarrow> ch_ref \<Rightarrow> fr_channel_data_t \<Rightarrow>
   fr_fault + (int \<times> fr_channel_data_t option \<times> fr_world)" where
  "fr_channel_send_reply b w ch cd =
     (let worker = end_FROM_WORKER (channels w ch);
          when = m_when cd;
          sequence1 = sequence worker + 1;
          cd1 = cd\<lparr>live_sequence := sequence1, live_ack := ack worker\<rparr>
      in case fr_atomic_queue_push (aq worker) cd1 of
           None \<Rightarrow>
             (case fr_channel_recv_request b w ch of
                Inl f \<Rightarrow> Inl f
              | Inr (r, w1) \<Rightarrow> Inr (- 1, r, w1))
         | Some q \<Rightarrow>
             if \<not> rad_assert b (0 <s num_outstanding worker) then Inl Assert_failed
             else
               let message_interval1 = when - last_write worker;
                   worker1 = worker\<lparr>aq := q, num_outstanding := num_outstanding worker - 1,
                                    sequence := sequence1,
                                    message_interval := RTT (message_interval worker) message_interval1\<rparr>
               in if \<not> rad_assert b (last_write worker1 \<le> when) then Inl Assert_failed
                  else
                    let w1 = store_end w ch FROM_WORKER (worker1\<lparr>last_write := when\<rparr>)
                    in (case fr_channel_recv_request b w1 ch of
                         Inl f \<Rightarrow> Inl f
                       | Inr (r, w2) \<Rightarrow>
                           let worker2 = end_FROM_WORKER (channels w2 ch);
                               master2 = end_TO_WORKER (channels w2 ch)
                           in if num_outstanding worker2 = 0 then
                                with_piggyback r
                                  (fr_channel_data_ready w2 ch when FROM_WORKER
                                     FR_CHANNEL_SIGNAL_DATA_DONE_WORKER)
                              else if apple b \<and> ack master2 < sequence_at_last_signal worker2 then
                                Inr (0, r, w2)
                              else if \<not> rad_assert b (ack master2 \<le> sequence worker2) then
                                Inl Assert_failed
                              else if sequence worker2 - ack master2 \<le> 1000 \<and>
                                      (when - last_read_other worker2 < SIGNAL_INTERVAL \<or>
                                       when - last_sent_signal worker2 < SIGNAL_INTERVAL)
                              then Inr (0, r, w2)
                              else with_piggyback r
                                     (fr_channel_data_ready w2 ch when FROM_WORKER
                                        FR_CHANNEL_SIGNAL_DATA_FROM_WORKER)))"

subsection \<open>fr_channel_worker_sleeping\<close>

definition fr_channel_worker_sleeping :: "fr_world \<Rightarrow> ch_ref \<Rightarrow> fr_fault + (int \<times> fr_world)" where
  "fr_channel_worker_sleeping w ch =
     (let worker = end_FROM_WORKER (channels w ch)
      in if num_outstanding worker = 0 then Inr (0, w)
         else
           let worker1 = worker\<lparr>num_signals := num_signals worker + 1\<rparr>;
               w1 = store_end w ch FROM_WORKER worker1;
               cc = \<lparr>cc_signal = FR_CHANNEL_SIGNAL_WORKER_SLEEPING, cc_ack = ack worker1, cc_ch = ch\<rparr>
           in fr_control_message_send w1 (control worker1) cc)"

subsection \<open>fr_channel_service_aq\<close>

text \<open>
  The \<^verbatim>\<open>switch\<close>: \<open>Inl\<close> is an event that is returned at once (the cast
  \<^verbatim>\<open>(fr_channel_event_t) cs\<close> of one of the first five signals, which
  \<^verbatim>\<open>fr_channel_signal_t\<close> defines as equal to the events of the same name), \<open>Inr\<close> the
  value of \<^verbatim>\<open>ce\<close> with which the function goes on.
\<close>

definition service_switch :: "fr_channel_signal_t \<Rightarrow> fr_channel_event_t + fr_channel_event_t" where
  "service_switch cs =
     (case cs of
        FR_CHANNEL_SIGNAL_ERROR \<Rightarrow> Inl FR_CHANNEL_ERROR
      | FR_CHANNEL_SIGNAL_DATA_TO_WORKER \<Rightarrow> Inl FR_CHANNEL_DATA_READY_WORKER
      | FR_CHANNEL_SIGNAL_DATA_FROM_WORKER \<Rightarrow> Inl FR_CHANNEL_DATA_READY_RECEIVER
      | FR_CHANNEL_SIGNAL_OPEN \<Rightarrow> Inl FR_CHANNEL_OPEN
      | FR_CHANNEL_SIGNAL_CLOSE \<Rightarrow> Inl FR_CHANNEL_CLOSE
      | FR_CHANNEL_SIGNAL_DATA_DONE_WORKER \<Rightarrow> Inr FR_CHANNEL_DATA_READY_RECEIVER
      | FR_CHANNEL_SIGNAL_WORKER_SLEEPING \<Rightarrow> Inr FR_CHANNEL_NOOP)"

text \<open>
  \<open>p_channel\<close> is what \<^verbatim>\<open>*p_channel\<close> holds before the call (an empty queue leaves it as
  it is). The result is the event, \<^verbatim>\<open>*p_channel\<close> and the memory. A popped record always
  has the size of \<^verbatim>\<open>cc\<close>, so the first assertion holds.
\<close>

definition fr_channel_service_aq ::
  "fr_build \<Rightarrow> fr_world \<Rightarrow> aq_ref \<Rightarrow> fr_time_t \<Rightarrow> ch_ref option \<Rightarrow>
   fr_fault + (fr_channel_event_t \<times> ch_ref option \<times> fr_world)" where
  "fr_channel_service_aq b w a when p_channel =
     (case fr_control_message_pop w a of
        None \<Rightarrow> Inr (FR_CHANNEL_EMPTY, p_channel, w)
      | Some (cc, w1) \<Rightarrow>
          let cs = cc_signal cc;
              ack1 = cc_ack cc;
              ch = cc_ch cc
          in (case service_switch cs of
               Inl ev \<Rightarrow> Inr (ev, Some ch, w1)
             | Inr ce \<Rightarrow>
                 if \<not> rad_assert b (a = aq_control (end_FROM_WORKER (channels w1 ch)))
                 then Inl Assert_failed
                 else
                   let end0 = end_TO_WORKER (channels w1 ch)
                   in if ack1 = sequence end0 then Inr (ce, Some ch, w1)
                      else if \<not> rad_assert b (ack1 < sequence end0) then Inl Assert_failed
                      else
                        let w2 = store_end w1 ch TO_WORKER
                                   (end0\<lparr>num_resignals := num_resignals end0 + 1\<rparr>)
                        in (case fr_channel_data_ready w2 ch when TO_WORKER
                                   FR_CHANNEL_SIGNAL_DATA_TO_WORKER of
                              Inl f \<Rightarrow> Inl f
                            | Inr (rcode, w3) \<Rightarrow>
                                if rcode < 0 then Inr (FR_CHANNEL_ERROR, Some ch, w3)
                                else Inr (ce, Some ch, w3))))"

subsection \<open>fr_channel_service_kevent\<close>

text \<open>
  \<open>serviced\<close> is what \<^verbatim>\<open>fr_control_message_service_kevent\<close> returns (control.c is not
  part of the sources): 0 when the event is not one of the control plane.
\<close>

definition fr_channel_service_kevent :: "fr_world \<Rightarrow> ch_ref \<Rightarrow> aq_ref \<Rightarrow> int \<Rightarrow> int \<times> fr_world" where
  "fr_channel_service_kevent w ch a serviced =
     (if serviced = 0 then (0, w)
      else
        let c = channels w ch
        in if a = aq_control (end_TO_WORKER c) then
             (0, store_end w ch TO_WORKER
                   ((end_TO_WORKER c)\<lparr>num_kevents := num_kevents (end_TO_WORKER c) + 1\<rparr>))
           else
             (0, store_end w ch FROM_WORKER
                   ((end_FROM_WORKER c)\<lparr>num_kevents := num_kevents (end_FROM_WORKER c) + 1\<rparr>)))"

subsection \<open>Lifecycle\<close>

definition fr_channel_active :: "fr_world \<Rightarrow> ch_ref \<Rightarrow> bool" where
  "fr_channel_active w ch = active (channels w ch)"

text \<open>\<^verbatim>\<open>ch->active = v\<close>.\<close>

definition store_active :: "fr_world \<Rightarrow> ch_ref \<Rightarrow> bool \<Rightarrow> fr_world" where
  "store_active w ch v = store_channel w ch ((channels w ch)\<lparr>active := v\<rparr>)"

text \<open>
  \<^verbatim>\<open>talloc_get_type_abort\<close> checks that \<^verbatim>\<open>ch\<close> points to a channel, which every address
  of type \<open>ch_ref\<close> does here.
\<close>

definition fr_channel_signal_worker_close :: "fr_world \<Rightarrow> ch_ref \<Rightarrow> fr_fault + (int \<times> fr_world)" where
  "fr_channel_signal_worker_close w ch =
     (let w1 = store_active w ch False;
          cc = \<lparr>cc_signal = FR_CHANNEL_SIGNAL_CLOSE, cc_ack = end_number TO_WORKER, cc_ch = ch\<rparr>
      in fr_control_message_send w1 (control (end_TO_WORKER (channels w1 ch))) cc)"

definition fr_channel_worker_ack_close :: "fr_world \<Rightarrow> ch_ref \<Rightarrow> fr_fault + (int \<times> fr_world)" where
  "fr_channel_worker_ack_close w ch =
     (let w1 = store_active w ch False;
          cc = \<lparr>cc_signal = FR_CHANNEL_SIGNAL_CLOSE, cc_ack = end_number FROM_WORKER, cc_ch = ch\<rparr>
      in fr_control_message_send w1 (control (end_FROM_WORKER (channels w1 ch))) cc)"

definition fr_channel_worker_ctx_add :: "fr_world \<Rightarrow> ch_ref \<Rightarrow> nat option \<Rightarrow> fr_world" where
  "fr_channel_worker_ctx_add w ch x =
     store_end w ch FROM_WORKER ((end_FROM_WORKER (channels w ch))\<lparr>ctx := x\<rparr>)"

definition fr_channel_worker_ctx_get :: "fr_world \<Rightarrow> ch_ref \<Rightarrow> nat option" where
  "fr_channel_worker_ctx_get w ch = ctx (end_FROM_WORKER (channels w ch))"

definition fr_channel_signal_open :: "fr_world \<Rightarrow> ch_ref \<Rightarrow> fr_fault + (int \<times> fr_world)" where
  "fr_channel_signal_open w ch =
     (let cc = \<lparr>cc_signal = FR_CHANNEL_SIGNAL_OPEN, cc_ack = 0, cc_ch = ch\<rparr>
      in fr_control_message_send w (control (end_TO_WORKER (channels w ch))) cc)"

text \<open>\<open>control_ok\<close> is the outcome of \<^verbatim>\<open>fr_control_create\<close>.\<close>

definition fr_channel_worker_receive_open :: "fr_world \<Rightarrow> bool \<Rightarrow> ch_ref \<Rightarrow> int \<times> fr_world" where
  "fr_channel_worker_receive_open w control_ok ch =
     (let worker = end_FROM_WORKER (channels w ch)
      in if control worker \<noteq> None then (- 1, w)
         else
           let c1 = fr_control_create control_ok (kq worker) (aq_control worker);
               w1 = store_end w ch FROM_WORKER (worker\<lparr>control := c1\<rparr>)
           in if c1 = None then (- 1, w1) else (0, w1))"

subsection \<open>Names used in the statements\<close>

text \<open>The locals \<^verbatim>\<open>master = &(ch->end[TO_WORKER])\<close> and
  \<^verbatim>\<open>worker = &(ch->end[FROM_WORKER])\<close> of the C functions.\<close>

abbreviation master_end :: "fr_world \<Rightarrow> ch_ref \<Rightarrow> fr_channel_end_t" where
  "master_end w ch \<equiv> end_TO_WORKER (channels w ch)"

abbreviation worker_end :: "fr_world \<Rightarrow> ch_ref \<Rightarrow> fr_channel_end_t" where
  "worker_end w ch \<equiv> end_FROM_WORKER (channels w ch)"

definition peer :: "fr_end_index \<Rightarrow> fr_end_index" where
  "peer e = (case e of TO_WORKER \<Rightarrow> FROM_WORKER | FROM_WORKER \<Rightarrow> TO_WORKER)"

text \<open>
  The spec's steps 1 to 3 of \<open>send_request\<close> (section 4.3.1), for a push that succeeds:
  stamp the message with \<open>seq = master.sequence + 1\<close> and \<open>master.ack\<close>, push it, then
  "master.sequence = seq; update message_interval from (msg.when - master.last_write);
  master.last_write = msg.when; num_outstanding += 1". The theorems compare the code
  with it.
\<close>

definition request_pushed :: "fr_world \<Rightarrow> ch_ref \<Rightarrow> fr_channel_data_t \<Rightarrow> fr_world" where
  "request_pushed w ch msg =
     (let master = master_end w ch;
          seq = sequence master + 1;
          stamped = msg\<lparr>live_sequence := seq, live_ack := ack master\<rparr>
      in store_end w ch TO_WORKER
           (master\<lparr>aq := (aq master)\<lparr>aq_entries := aq_entries (aq master) @ [stamped]\<rparr>,
                   sequence := seq,
                   message_interval := RTT (message_interval master) (m_when msg - last_write master),
                   last_write := m_when msg,
                   num_outstanding := num_outstanding master + 1\<rparr>))"

text \<open>
  The same for \<open>send_reply\<close> (section 4.3.5, which "mirrors 4.3.1" and adds
  "after push succeeds, worker.num_outstanding -= 1").
\<close>

definition reply_pushed :: "fr_world \<Rightarrow> ch_ref \<Rightarrow> fr_channel_data_t \<Rightarrow> fr_world" where
  "reply_pushed w ch msg =
     (let worker = worker_end w ch;
          seq = sequence worker + 1;
          stamped = msg\<lparr>live_sequence := seq, live_ack := ack worker\<rparr>
      in store_end w ch FROM_WORKER
           (worker\<lparr>aq := (aq worker)\<lparr>aq_entries := aq_entries (aq worker) @ [stamped]\<rparr>,
                   num_outstanding := num_outstanding worker - 1,
                   sequence := seq,
                   message_interval := RTT (message_interval worker) (m_when msg - last_write worker),
                   last_write := m_when msg\<rparr>))"

text \<open>The result of a send, with \<^verbatim>\<open>ch->active\<close> set to \<open>v\<close> in the memory it leaves.\<close>

definition keep_active ::
  "bool \<Rightarrow> ch_ref \<Rightarrow> fr_fault + (int \<times> fr_channel_data_t option \<times> fr_world) \<Rightarrow>
   fr_fault + (int \<times> fr_channel_data_t option \<times> fr_world)" where
  "keep_active v ch x =
     (case x of Inl f \<Rightarrow> Inl f | Inr (rcode, r, w) \<Rightarrow> Inr (rcode, r, store_active w ch v))"

subsection \<open>Concrete runs\<close>

text \<open>
  The build with assertions on, for a host that is not an Apple one; a memory in which no
  channel exists yet and every control queue is empty and has room for \<open>n\<close> records; a
  message with its time, processing time and CPU time.
\<close>

definition debug_build :: fr_build where
  "debug_build = \<lparr>ndebug = False, apple = False\<rparr>"

definition empty_world :: "nat \<Rightarrow> fr_world" where
  "empty_world n =
     \<lparr>channels = (\<lambda>_. \<lparr>cpu_time = 0, processing_time = 0, active = False,
                         end_TO_WORKER = fr_channel_end_zero (fr_atomic_queue_create 0),
                         end_FROM_WORKER = fr_channel_end_zero (fr_atomic_queue_create 0)\<rparr>),
      control_queues = (\<lambda>_. fr_atomic_queue_create n)\<rparr>"

definition message :: "fr_time_t \<Rightarrow> fr_time_t \<Rightarrow> fr_time_t \<Rightarrow> fr_channel_data_t" where
  "message t p c = \<lparr>m_when = t, live_sequence = 0, live_ack = 0,
                    reply_processing_time = p, reply_cpu_time = c\<rparr>"

text \<open>The memory with which a run goes on after a call (after a fault: the one before).\<close>

definition memory2 :: "fr_world \<Rightarrow> fr_fault + ('a \<times> fr_world) \<Rightarrow> fr_world" where
  "memory2 w x = (case x of Inl f \<Rightarrow> w | Inr (a, w1) \<Rightarrow> w1)"

definition memory3 :: "fr_world \<Rightarrow> fr_fault + ('a \<times> 'b \<times> fr_world) \<Rightarrow> fr_world" where
  "memory3 w x = (case x of Inl f \<Rightarrow> w | Inr (a, r, w1) \<Rightarrow> w1)"

text \<open>
  The master creates channel 1 at time 50; its own control queue is queue 10, the
  worker's is queue 20. The worker opens its side.
\<close>

definition channel_created :: "nat \<Rightarrow> fr_world" where
  "channel_created n = snd (fr_channel_create (empty_world n) (Some 1) True True True 50 3 10 4 20)"

definition channel_opened :: "nat \<Rightarrow> fr_world" where
  "channel_opened n = snd (fr_channel_worker_receive_open (channel_created n) True 1)"

text \<open>
  Scenario S1: the master sends a request at time 100, the worker receives it and sends
  the reply \<^verbatim>\<open>{when=200, processing_time=100, cpu_time=100}\<close>, the master receives the
  reply.
\<close>

definition one_outstanding :: "nat \<Rightarrow> fr_world" where
  "one_outstanding n =
     memory3 (channel_opened n)
       (fr_channel_send_request debug_build (channel_opened n) 1 (message 100 0 0) None)"

definition request_received :: "nat \<Rightarrow> fr_world" where
  "request_received n =
     memory2 (one_outstanding n) (fr_channel_recv_request debug_build (one_outstanding n) 1)"

definition reply_waiting :: "nat \<Rightarrow> fr_world" where
  "reply_waiting n =
     memory3 (request_received n)
       (fr_channel_send_reply debug_build (request_received n) 1 (message 200 100 100))"

definition scenario_S1 :: fr_world where
  "scenario_S1 =
     memory2 (reply_waiting 2) (fr_channel_recv_reply debug_build (reply_waiting 2) 1)"

text \<open>
  Scenario S5: the master sends a second request at time 200 before the worker has
  looked, the worker receives the first request and then goes to sleep.
\<close>

definition two_outstanding :: "nat \<Rightarrow> fr_world" where
  "two_outstanding n =
     memory3 (one_outstanding n)
       (fr_channel_send_request debug_build (one_outstanding n) 1 (message 200 0 0) None)"

definition two_received_one :: "nat \<Rightarrow> fr_world" where
  "two_received_one n =
     memory2 (two_outstanding n) (fr_channel_recv_request debug_build (two_outstanding n) 1)"

definition worker_asleep :: "nat \<Rightarrow> fr_world" where
  "worker_asleep n = memory2 (two_received_one n) (fr_channel_worker_sleeping (two_received_one n) 1)"

text \<open>
  A reply older than the newest request: the second request is sent at time 2000000, the
  worker receives the first request and then sends a reply that it had made at time
  1000100.
\<close>

definition late_outstanding :: "nat \<Rightarrow> fr_world" where
  "late_outstanding n =
     memory3 (one_outstanding n)
       (fr_channel_send_request debug_build (one_outstanding n) 1 (message 2000000 0 0) None)"

definition late_received_one :: "nat \<Rightarrow> fr_world" where
  "late_received_one n =
     memory2 (late_outstanding n) (fr_channel_recv_request debug_build (late_outstanding n) 1)"

text \<open>The master closes the channel it created, once and twice.\<close>

definition closed_once :: "nat \<Rightarrow> fr_world" where
  "closed_once n = memory2 (channel_created n) (fr_channel_signal_worker_close (channel_created n) 1)"

definition closed_twice :: "nat \<Rightarrow> fr_world" where
  "closed_twice n = memory2 (closed_once n) (fr_channel_signal_worker_close (closed_once n) 1)"

text \<open>
  A channel whose counter of outstanding requests is negative, which no run from
  \<^verbatim>\<open>fr_channel_create\<close> reaches but the type \<^verbatim>\<open>int\<close> allows.
\<close>

definition negative_outstanding :: fr_world where
  "negative_outstanding =
     store_end (channel_opened 2) 1 TO_WORKER
       ((master_end (channel_opened 2) 1)\<lparr>num_outstanding := - 1\<rparr>)"

text \<open>
  Backpressure: the master has sent requests 1 to 1025 (request \<open>i\<close> at time
  \<open>1000 + i\<close>), the worker has taken request 1 out of the queue, which is full again
  with requests 2 to 1025, and has sent its reply at time 2030.
\<close>

definition queued_request :: "nat \<Rightarrow> fr_channel_data_t" where
  "queued_request i = \<lparr>m_when = 1000 + of_nat i, live_sequence = of_nat i, live_ack = 0,
                       reply_processing_time = 0, reply_cpu_time = 0\<rparr>"

definition first_reply :: fr_channel_data_t where
  "first_reply = \<lparr>m_when = 2030, live_sequence = 1, live_ack = 1,
                  reply_processing_time = 100, reply_cpu_time = 100\<rparr>"

definition backlog :: fr_world where
  "backlog =
     (let c = channels (channel_opened 2) 1;
          master = end_TO_WORKER c;
          worker = end_FROM_WORKER c
      in store_channel (channel_opened 2) 1
           (c\<lparr>end_TO_WORKER :=
                 master\<lparr>num_outstanding := 1025, sequence := 1025, last_write := 2025,
                        aq := (aq master)\<lparr>aq_entries := map queued_request [2..<1026]\<rparr>\<rparr>,
               end_FROM_WORKER :=
                 worker\<lparr>sequence := 1, ack := 1, last_write := 2030, last_read_other := 1001,
                        aq := (aq worker)\<lparr>aq_entries := [first_reply]\<rparr>\<rparr>\<rparr>))"

section \<open>Properties\<close>

subsection \<open>Auxiliary facts\<close>

lemmas store_defs = store_end_def store_channel_def ch_end_def ch_end_update_def

lemmas run_defs = fr_channel_create_def fr_channel_worker_receive_open_def
  fr_channel_send_request_def fr_channel_send_reply_def fr_channel_recv_reply_def
  fr_channel_recv_request_def fr_channel_data_ready_def fr_control_message_send_def
  fr_control_message_pop_def fr_channel_service_aq_def fr_atomic_queue_push_def
  fr_atomic_queue_pop_def fr_atomic_queue_create_def fr_control_create_def
  fr_channel_worker_sleeping_def fr_channel_signal_worker_close_def
  fr_channel_worker_ack_close_def store_active_def end_number_def service_switch_def
  fr_channel_end_zero_def with_piggyback_def rad_assert_def store_end_def store_channel_def
  ch_end_def ch_end_update_def ATOMIC_QUEUE_SIZE_def SIGNAL_INTERVAL_def RTT_def IALPHA_def
  request_pushed_def reply_pushed_def keep_active_def Let_def word_sless_alt

lemmas fixture_defs = debug_build_def empty_world_def message_def memory2_def memory3_def
  channel_created_def channel_opened_def one_outstanding_def request_received_def
  reply_waiting_def scenario_S1_def two_outstanding_def two_received_one_def
  worker_asleep_def closed_once_def closed_twice_def negative_outstanding_def
  late_outstanding_def late_received_one_def









text \<open>No function reads \<^verbatim>\<open>ch->active\<close> on the way of a send.\<close>

lemma active_out:
  "(c\<lparr>active := v\<rparr>)\<lparr>end_TO_WORKER := x\<rparr> = (c\<lparr>end_TO_WORKER := x\<rparr>)\<lparr>active := v\<rparr>"
  "(c\<lparr>active := v\<rparr>)\<lparr>end_FROM_WORKER := x\<rparr> = (c\<lparr>end_FROM_WORKER := x\<rparr>)\<lparr>active := v\<rparr>"
  "(c\<lparr>active := v\<rparr>)\<lparr>processing_time := t\<rparr> = (c\<lparr>processing_time := t\<rparr>)\<lparr>active := v\<rparr>"
  "(c\<lparr>active := v\<rparr>)\<lparr>cpu_time := t\<rparr> = (c\<lparr>cpu_time := t\<rparr>)\<lparr>active := v\<rparr>"
  by simp_all

lemma recv_reply_active:
  "fr_channel_recv_reply b (store_active w ch v) ch =
     (case fr_channel_recv_reply b w ch of
        Inl f \<Rightarrow> Inl f
      | Inr (r, w1) \<Rightarrow> Inr (r, store_active w1 ch v))"
  by (simp add: fr_channel_recv_reply_def store_active_def store_channel_def Let_def
        active_out split: option.splits)

lemma recv_request_active:
  "fr_channel_recv_request b (store_active w ch v) ch =
     (case fr_channel_recv_request b w ch of
        Inl f \<Rightarrow> Inl f
      | Inr (r, w1) \<Rightarrow> Inr (r, store_active w1 ch v))"
  by (simp add: fr_channel_recv_request_def store_active_def store_channel_def Let_def
        active_out split: option.splits)

lemma data_ready_active:
  "fr_channel_data_ready (store_active w ch v) ch when e which =
     (case fr_channel_data_ready w ch when e which of
        Inl f \<Rightarrow> Inl f
      | Inr (rcode, w1) \<Rightarrow> Inr (rcode, store_active w1 ch v))"
  by (cases e)
     (simp_all add: fr_channel_data_ready_def fr_control_message_send_def store_active_def
        store_defs Let_def active_out split: option.splits)

lemma store_end_active:
  "store_end (store_active w ch v) ch e x = store_active (store_end w ch e x) ch v"
  by (cases e) (simp_all add: store_active_def store_defs active_out)

lemma ends_active:
  "end_TO_WORKER (channels (store_active w ch v) ch) = end_TO_WORKER (channels w ch)"
  "end_FROM_WORKER (channels (store_active w ch v) ch) = end_FROM_WORKER (channels w ch)"
  by (simp_all add: store_active_def store_channel_def)

lemma send_request_active:
  "fr_channel_send_request b (store_active w ch v) ch cd p =
     keep_active v ch (fr_channel_send_request b w ch cd p)"
  by (auto simp: fr_channel_send_request_def keep_active_def Let_def recv_reply_active
        data_ready_active store_end_active with_piggyback_def ends_active
        split: option.splits sum.splits)

lemma send_reply_active:
  "fr_channel_send_reply b (store_active w ch v) ch cd =
     keep_active v ch (fr_channel_send_reply b w ch cd)"
  by (auto simp: fr_channel_send_reply_def keep_active_def Let_def recv_request_active
        data_ready_active store_end_active with_piggyback_def ends_active
        split: option.splits sum.splits)

text \<open>Every step of the concrete runs returns, and with the code of success.\<close>

lemma run_steps:
  assumes "0 < n"
  shows "fst (fr_channel_create (empty_world n) (Some 1) True True True 50 3 10 4 20) = Some 1"
    and "fst (fr_channel_worker_receive_open (channel_created n) True 1) = 0"
    and "map_sum id fst
           (fr_channel_send_request debug_build (channel_opened n) 1 (message 100 0 0) None) = Inr 0"
    and "map_sum id fst (fr_channel_recv_request debug_build (one_outstanding n) 1) =
           Inr (Some ((message 100 0 0)\<lparr>live_sequence := 1, live_ack := 0\<rparr>))"
    and "map_sum id fst
           (fr_channel_send_reply debug_build (request_received n) 1 (message 200 100 100)) = Inr 0"
    and "map_sum id fst
           (fr_channel_send_request debug_build (one_outstanding n) 1 (message 200 0 0) None) = Inr 0"
    and "map_sum id fst (fr_channel_recv_request debug_build (two_outstanding n) 1) =
           Inr (Some ((message 100 0 0)\<lparr>live_sequence := 1, live_ack := 0\<rparr>))"
    and "map_sum id fst (fr_channel_worker_sleeping (two_received_one n) 1) = Inr 0"
    and "map_sum id fst (fr_channel_signal_worker_close (channel_created n) 1) = Inr 0"
  using assms by (simp_all add: fixture_defs run_defs)

text \<open>The full data queue of the backlog.\<close>

lemma backlog_full:
  "length (aq_entries (aq (master_end backlog 1))) = 1024"
  "aq_size (aq (master_end backlog 1)) = 1024"
  by (simp_all add: backlog_def channel_opened_def channel_created_def empty_world_def
        fr_channel_create_def fr_channel_worker_receive_open_def fr_control_create_def
        fr_channel_end_zero_def fr_atomic_queue_create_def store_defs ATOMIC_QUEUE_SIZE_def
        Let_def del: upt_rec_numeral)

subsection \<open>Creation\<close>

text \<open>
  C10. Every channel returned by a successful \<^verbatim>\<open>fr_channel_create\<close> is active, and each
  of its two ends starts with \<open>sequence = 0\<close>, \<open>ack = 0\<close>, \<open>num_outstanding = 0\<close>,
  \<open>num_signals = num_resignals = num_kevents = 0\<close> and with \<open>last_write\<close>,
  \<open>last_read_other\<close> and \<open>last_sent_signal\<close> equal to the creation time. Hence
  \<open>ack \<le> peer.sequence\<close> and \<open>num_outstanding = sequence - peer.ack = 0\<close> hold initially.
\<close>

theorem fr_channel_create_initial:
  assumes "fr_channel_create w p aq0_ok aq1_ok control_ok now kq_master aq_master kq_worker aq_worker
             = (Some ch, w')"
  shows "active (channels w' ch) \<and>
         (\<forall>e. sequence (ch_end (channels w' ch) e) = 0 \<and>
              ack (ch_end (channels w' ch) e) = 0 \<and>
              num_outstanding (ch_end (channels w' ch) e) = 0 \<and>
              num_signals (ch_end (channels w' ch) e) = 0 \<and>
              num_resignals (ch_end (channels w' ch) e) = 0 \<and>
              num_kevents (ch_end (channels w' ch) e) = 0 \<and>
              last_write (ch_end (channels w' ch) e) = now \<and>
              last_read_other (ch_end (channels w' ch) e) = now \<and>
              last_sent_signal (ch_end (channels w' ch) e) = now \<and>
              ack (ch_end (channels w' ch) e) \<le> sequence (ch_end (channels w' ch) (peer e)) \<and>
              sint (num_outstanding (ch_end (channels w' ch) e)) =
                uint (sequence (ch_end (channels w' ch) e) - ack (ch_end (channels w' ch) (peer e))) \<and>
              sint (num_outstanding (ch_end (channels w' ch) e)) = 0)"
  using assms
  by (auto simp: fr_channel_create_def Let_def store_channel_def ch_end_def fr_channel_end_zero_def
        fr_control_create_def peer_def
        split: option.splits if_splits fr_end_index.splits)

theorem fr_channel_create_initial_witness:
  "fr_channel_create (empty_world 2) (Some 1) True True True 50 3 10 4 20 = (Some 1, channel_created 2) \<and>
   active (channels (channel_created 2) 1) \<and>
   sequence (master_end (channel_created 2) 1) = 0 \<and>
   num_outstanding (worker_end (channel_created 2) 1) = 0 \<and>
   last_write (master_end (channel_created 2) 1) = 50 \<and>
   last_sent_signal (worker_end (channel_created 2) 1) = 50"
proof -
  have h: "fr_channel_create (empty_world 2) (Some 1) True True True 50 3 10 4 20
             = (Some 1, channel_created 2)"
    by (simp add: channel_created_def fr_channel_create_def fr_control_create_def Let_def)
  have "\<forall>e. sequence (ch_end (channels (channel_created 2) 1) e) = 0 \<and>
            num_outstanding (ch_end (channels (channel_created 2) 1) e) = 0 \<and>
            last_write (ch_end (channels (channel_created 2) 1) e) = 50 \<and>
            last_sent_signal (ch_end (channels (channel_created 2) 1) e) = 50"
    using fr_channel_create_initial [OF h] by blast
  then have "sequence (ch_end (channels (channel_created 2) 1) TO_WORKER) = 0 \<and>
             num_outstanding (ch_end (channels (channel_created 2) 1) FROM_WORKER) = 0 \<and>
             last_write (ch_end (channels (channel_created 2) 1) TO_WORKER) = 50 \<and>
             last_sent_signal (ch_end (channels (channel_created 2) 1) FROM_WORKER) = 50"
    by blast
  then show ?thesis
    using h fr_channel_create_initial [OF h] by (simp add: ch_end_def)
qed

subsection \<open>Receiving a reply\<close>

text \<open>
  C2. \<^verbatim>\<open>fr_channel_recv_reply\<close> returns NULL and changes nothing when the queue from the
  worker is empty. Otherwise it takes the first message \<open>msg\<close> out of that queue, and
  with \<open>msg.sequence > master.ack\<close> and \<open>msg.sequence \<le> master.sequence\<close> (and the two
  other conditions that the function asserts, when assertions are compiled in), it
  returns \<open>msg\<close>, decrements \<open>master.num_outstanding\<close> by 1, sets
  \<open>master.ack = msg.sequence\<close> and \<open>master.last_read_other = msg.when\<close>, sets
  \<open>ch.processing_time\<close> to the moving average
  \<open>(processing_time + 7 * msg.processing_time) / 8\<close> and sets
  \<open>ch.cpu_time = msg.cpu_time\<close>. The master's \<open>sequence\<close> and the control queues stay
  as they are.
\<close>

theorem fr_channel_recv_reply_updates:
  "(aq_entries (aq (worker_end w ch)) = [] \<longrightarrow> fr_channel_recv_reply b w ch = Inr (None, w)) \<and>
   (aq_entries (aq (worker_end w ch)) = msg # rest \<and>
    ack (master_end w ch) < live_sequence msg \<and>
    live_sequence msg \<le> sequence (master_end w ch) \<and>
    rad_assert b (0 <s num_outstanding (master_end w ch)) \<and>
    rad_assert b (last_read_other (master_end w ch) \<le> m_when msg) \<longrightarrow>
    (\<exists>w'. fr_channel_recv_reply b w ch = Inr (Some msg, w') \<and>
          aq_entries (aq (worker_end w' ch)) = rest \<and>
          aq_size (aq (worker_end w' ch)) = aq_size (aq (worker_end w ch)) \<and>
          num_outstanding (master_end w' ch) = num_outstanding (master_end w ch) - 1 \<and>
          ack (master_end w' ch) = live_sequence msg \<and>
          last_read_other (master_end w' ch) = m_when msg \<and>
          processing_time (channels w' ch) =
            (processing_time (channels w ch) + 7 * reply_processing_time msg) div 8 \<and>
          cpu_time (channels w' ch) = reply_cpu_time msg \<and>
          sequence (master_end w' ch) = sequence (master_end w ch) \<and>
          control_queues w' = control_queues w))"
  by (simp add: fr_channel_recv_reply_def fr_atomic_queue_pop_def Let_def rad_assert_def
        store_channel_def RTT_def IALPHA_def)

theorem fr_channel_recv_reply_updates_witness:
  "aq_entries (aq (worker_end (channel_opened 2) 1)) = [] \<and>
   fr_channel_recv_reply debug_build (channel_opened 2) 1 = Inr (None, channel_opened 2) \<and>
   aq_entries (aq (worker_end (reply_waiting 2) 1)) = [(message 200 100 100)\<lparr>live_sequence := 1, live_ack := 1\<rparr>] \<and>
   ack (master_end (reply_waiting 2) 1) < 1 \<and>
   1 \<le> sequence (master_end (reply_waiting 2) 1) \<and>
   rad_assert debug_build (0 <s num_outstanding (master_end (reply_waiting 2) 1)) \<and>
   rad_assert debug_build (last_read_other (master_end (reply_waiting 2) 1) \<le> 200) \<and>
   (\<exists>w'. fr_channel_recv_reply debug_build (reply_waiting 2) 1 =
            Inr (Some ((message 200 100 100)\<lparr>live_sequence := 1, live_ack := 1\<rparr>), w') \<and>
          aq_entries (aq (worker_end w' 1)) = [] \<and>
          num_outstanding (master_end w' 1) = num_outstanding (master_end (reply_waiting 2) 1) - 1 \<and>
          ack (master_end w' 1) = 1 \<and>
          last_read_other (master_end w' 1) = 200 \<and>
          processing_time (channels w' 1) =
            (processing_time (channels (reply_waiting 2) 1) + 7 * 100) div 8 \<and>
          cpu_time (channels w' 1) = 100)"
proof -
  let ?msg = "(message 200 100 100)\<lparr>live_sequence := 1, live_ack := 1\<rparr>"
  have e: "aq_entries (aq (worker_end (channel_opened 2) 1)) = []"
    by (simp add: fixture_defs run_defs)
  have q: "aq_entries (aq (worker_end (reply_waiting 2) 1)) = ?msg # []"
    and a: "ack (master_end (reply_waiting 2) 1) < live_sequence ?msg"
    and s: "live_sequence ?msg \<le> sequence (master_end (reply_waiting 2) 1)"
    and n: "rad_assert debug_build (0 <s num_outstanding (master_end (reply_waiting 2) 1))"
    and t: "rad_assert debug_build (last_read_other (master_end (reply_waiting 2) 1) \<le> m_when ?msg)"
    by (simp_all add: fixture_defs run_defs)
  have 1: "fr_channel_recv_reply debug_build (channel_opened 2) 1 = Inr (None, channel_opened 2)"
    using fr_channel_recv_reply_updates [where w = "channel_opened 2" and ch = 1 and b = debug_build] e
    by blast
  have 2: "\<exists>w'. fr_channel_recv_reply debug_build (reply_waiting 2) 1 = Inr (Some ?msg, w') \<and>
          aq_entries (aq (worker_end w' 1)) = [] \<and>
          num_outstanding (master_end w' 1) = num_outstanding (master_end (reply_waiting 2) 1) - 1 \<and>
          ack (master_end w' 1) = live_sequence ?msg \<and>
          last_read_other (master_end w' 1) = m_when ?msg \<and>
          processing_time (channels w' 1) =
            (processing_time (channels (reply_waiting 2) 1) + 7 * reply_processing_time ?msg) div 8 \<and>
          cpu_time (channels w' 1) = reply_cpu_time ?msg"
    using fr_channel_recv_reply_updates
            [where w = "reply_waiting 2" and ch = 1 and b = debug_build and rest = "[]"
               and msg = ?msg] q a s n t
    by blast
  show ?thesis
    using e 1 q a s n t 2 by (simp add: message_def)
qed

text \<open>
  C8. In scenario S1 the channel is fresh, with \<open>processing_time = 0\<close>, until
  the master receives the one reply, which carries \<open>processing_time = 100\<close>. After
  \<^verbatim>\<open>fr_channel_recv_reply\<close> has returned it, \<open>master.sequence = 1\<close>, \<open>master.ack = 1\<close>,
  \<open>master.num_outstanding = 0\<close>, and \<open>ch.processing_time\<close> is 87: the moving average
  \<open>(old + 7 * sample) / 8\<close> of the old value 0 and the sample 100, and not 12.
\<close>

theorem scenario_S1_processing_time:
  "processing_time (channels (reply_waiting 2) 1) = 0 \<and>
   map_sum id fst (fr_channel_recv_reply debug_build (reply_waiting 2) 1) =
     Inr (Some ((message 200 100 100)\<lparr>live_sequence := 1, live_ack := 1\<rparr>)) \<and>
   sequence (master_end scenario_S1 1) = 1 \<and>
   ack (master_end scenario_S1 1) = 1 \<and>
   num_outstanding (master_end scenario_S1 1) = 0 \<and>
   processing_time (channels scenario_S1 1) = 87 \<and>
   RTT 0 100 = 87"
  by (simp add: fixture_defs run_defs)

theorem scenario_S1_processing_time_witness:
  "processing_time (channels scenario_S1 1) = RTT 0 100"
  using scenario_S1_processing_time by simp

theorem S1_processing_time_is_not_12:
  "processing_time (channels (reply_waiting 2) 1) = 0 \<and>
   processing_time (channels scenario_S1 1) \<noteq> 12"
  by (simp add: fixture_defs run_defs)

subsection \<open>Signals\<close>

text \<open>
  C9. A control push that fails in \<^verbatim>\<open>fr_channel_data_ready\<close> has to give its failure
  code to the caller and to leave \<open>num_signals\<close> as it was. The code gives the failure
  code but counts the signal: in the call below, with the control queue of the worker
  full, it returns -1 and posts nothing, and yet \<open>num_signals\<close> goes from 1 to 2 and
  \<open>last_sent_signal\<close> from 100 to 300. The comments of the two fields say "number of
  kevent signals we've sent" and "the last time when we signaled the other end"; the
  function writes both before it knows whether the signal is sent.
\<close>

theorem failed_signal_is_counted:
  "length (aq_entries (control_queues (one_outstanding 1) 20)) =
     aq_size (control_queues (one_outstanding 1) 20) \<and>
   map_sum id fst
     (fr_channel_data_ready (one_outstanding 1) 1 300 TO_WORKER FR_CHANNEL_SIGNAL_DATA_TO_WORKER)
     = Inr (- 1) \<and>
   control_queues
     (memory2 (one_outstanding 1)
        (fr_channel_data_ready (one_outstanding 1) 1 300 TO_WORKER
           FR_CHANNEL_SIGNAL_DATA_TO_WORKER)) 20 =
     control_queues (one_outstanding 1) 20 \<and>
   num_signals (master_end (one_outstanding 1) 1) = 1 \<and>
   num_signals
     (master_end
        (memory2 (one_outstanding 1)
           (fr_channel_data_ready (one_outstanding 1) 1 300 TO_WORKER
              FR_CHANNEL_SIGNAL_DATA_TO_WORKER)) 1) = 2 \<and>
   last_sent_signal (master_end (one_outstanding 1) 1) = 100 \<and>
   last_sent_signal
     (master_end
        (memory2 (one_outstanding 1)
           (fr_channel_data_ready (one_outstanding 1) 1 300 TO_WORKER
              FR_CHANNEL_SIGNAL_DATA_TO_WORKER)) 1) = 300"
  by (simp add: fixture_defs run_defs)







subsection \<open>A full data queue\<close>

text \<open>
  C5. When the push of \<^verbatim>\<open>fr_channel_send_request\<close> fails (the data queue is
  full), the function returns the failure code -1 together with the result of exactly one
  \<^verbatim>\<open>fr_channel_recv_reply\<close> attempt, possibly empty. The master's \<open>sequence\<close>,
  \<open>message_interval\<close>, \<open>last_write\<close> and data queue are unchanged: the failed message
  is not considered sent. \<open>num_outstanding\<close> is unchanged when no reply was obtained and
  one less when a reply was obtained, since that reply has been received.
\<close>

theorem fr_channel_send_request_queue_full:
  assumes "\<not> length (aq_entries (aq (master_end w ch))) < aq_size (aq (master_end w ch))"
      and "fr_channel_recv_reply b w ch = Inr (r, w1)"
  shows "fr_channel_send_request b w ch cd p = Inr (- 1, r, w1) \<and>
         sequence (master_end w1 ch) = sequence (master_end w ch) \<and>
         message_interval (master_end w1 ch) = message_interval (master_end w ch) \<and>
         last_write (master_end w1 ch) = last_write (master_end w ch) \<and>
         aq (master_end w1 ch) = aq (master_end w ch) \<and>
         num_outstanding (master_end w1 ch) =
           (if r = None then num_outstanding (master_end w ch)
            else num_outstanding (master_end w ch) - 1)"
proof -
  have a: "fr_channel_send_request b w ch cd p = Inr (- 1, r, w1)"
    using assms
    by (simp add: fr_channel_send_request_def fr_atomic_queue_push_def Let_def)
  have b: "sequence (master_end w1 ch) = sequence (master_end w ch) \<and>
           message_interval (master_end w1 ch) = message_interval (master_end w ch) \<and>
           last_write (master_end w1 ch) = last_write (master_end w ch) \<and>
           aq (master_end w1 ch) = aq (master_end w ch) \<and>
           num_outstanding (master_end w1 ch) =
             (if r = None then num_outstanding (master_end w ch)
              else num_outstanding (master_end w ch) - 1)"
    using assms(2)
    by (auto simp: fr_channel_recv_reply_def fr_atomic_queue_pop_def Let_def store_channel_def
          split: list.splits if_splits)
  show ?thesis using a b by blast
qed

theorem fr_channel_send_request_queue_full_witness:
  "\<not> length (aq_entries (aq (master_end backlog 1))) < aq_size (aq (master_end backlog 1)) \<and>
   fr_channel_recv_reply debug_build backlog 1 =
     Inr (Some first_reply, memory2 backlog (fr_channel_recv_reply debug_build backlog 1)) \<and>
   fr_channel_send_request debug_build backlog 1 (message 3000 0 0) None =
     Inr (- 1, Some first_reply, memory2 backlog (fr_channel_recv_reply debug_build backlog 1)) \<and>
   sequence (master_end (memory2 backlog (fr_channel_recv_reply debug_build backlog 1)) 1) =
     sequence (master_end backlog 1) \<and>
   num_outstanding (master_end (memory2 backlog (fr_channel_recv_reply debug_build backlog 1)) 1) =
     num_outstanding (master_end backlog 1) - 1"
proof -
  let ?w1 = "memory2 backlog (fr_channel_recv_reply debug_build backlog 1)"
  have full: "\<not> length (aq_entries (aq (master_end backlog 1))) < aq_size (aq (master_end backlog 1))"
    using backlog_full by simp
  have recv: "fr_channel_recv_reply debug_build backlog 1 = Inr (Some first_reply, ?w1)"
    by (simp add: backlog_def first_reply_def fixture_defs run_defs del: upt_rec_numeral)
  show ?thesis
    using full recv
          fr_channel_send_request_queue_full [OF full recv, of "message 3000 0 0" None]
    by simp
qed

theorem backlog_reply_lowers_outstanding:
  "length (aq_entries (aq (master_end backlog 1))) = aq_size (aq (master_end backlog 1)) \<and>
   map_sum id fst (fr_channel_send_request debug_build backlog 1 (message 3000 0 0) None) = Inr (- 1) \<and>
   num_outstanding (master_end backlog 1) = 1025 \<and>
   num_outstanding
     (master_end
        (memory3 backlog (fr_channel_send_request debug_build backlog 1 (message 3000 0 0) None)) 1)
     = 1024"
proof -
  have full: "length (aq_entries (aq (master_end backlog 1))) = aq_size (aq (master_end backlog 1))"
    using backlog_full by simp
  have send: "fr_channel_send_request debug_build backlog 1 (message 3000 0 0) None =
                (case fr_channel_recv_reply debug_build backlog 1 of
                   Inl f \<Rightarrow> Inl f
                 | Inr (r, w1) \<Rightarrow> Inr (- 1, r, w1))"
    using full by (simp add: fr_channel_send_request_def fr_atomic_queue_push_def Let_def)
  show ?thesis
    unfolding send using full
    by (simp add: backlog_def first_reply_def fixture_defs run_defs del: upt_rec_numeral)
qed

subsection \<open>The control queue of the master\<close>

text \<open>
  C3. For every control record popped by \<^verbatim>\<open>fr_channel_service_aq\<close> (from the
  channel's own control queue, when assertions are compiled in): a
  \<open>DATA_DONE_WORKER\<close> record yields the event \<open>DATA_READY_RECEIVER\<close> and a
  \<open>WORKER_SLEEPING\<close> record yields \<open>NOOP\<close>. In both cases, if \<open>record.ack\<close> equals
  \<open>to_worker.sequence\<close> the event is returned as it is; if
  \<open>record.ack < to_worker.sequence\<close> then \<open>num_resignals\<close> is incremented by 1 and
  \<^verbatim>\<open>fr_channel_data_ready\<close> is called for a fresh \<open>DATA_TO_WORKER\<close> signal, after which
  the event is returned when that call succeeded and \<open>ERROR\<close> when it returned a
  failure code.
\<close>

theorem fr_channel_service_aq_resignal:
  assumes "fr_control_message_pop w a = Some (cc, w1)"
      and "cc_signal cc = FR_CHANNEL_SIGNAL_DATA_DONE_WORKER \<and> ce = FR_CHANNEL_DATA_READY_RECEIVER \<or>
           cc_signal cc = FR_CHANNEL_SIGNAL_WORKER_SLEEPING \<and> ce = FR_CHANNEL_NOOP"
      and "rad_assert b (a = aq_control (worker_end w1 (cc_ch cc)))"
  shows "(cc_ack cc = sequence (master_end w1 (cc_ch cc)) \<longrightarrow>
            fr_channel_service_aq b w a when p = Inr (ce, Some (cc_ch cc), w1)) \<and>
         (cc_ack cc < sequence (master_end w1 (cc_ch cc)) \<longrightarrow>
            fr_channel_service_aq b w a when p =
              (case fr_channel_data_ready
                      (store_end w1 (cc_ch cc) TO_WORKER
                         ((master_end w1 (cc_ch cc))
                            \<lparr>num_resignals := num_resignals (master_end w1 (cc_ch cc)) + 1\<rparr>))
                      (cc_ch cc) when TO_WORKER FR_CHANNEL_SIGNAL_DATA_TO_WORKER of
                 Inl f \<Rightarrow> Inl f
               | Inr (rcode, w3) \<Rightarrow>
                   Inr (if rcode < 0 then FR_CHANNEL_ERROR else ce, Some (cc_ch cc), w3)))"
  using assms
  by (auto simp: fr_channel_service_aq_def service_switch_def Let_def rad_assert_def
        split: sum.splits)

theorem fr_channel_service_aq_resignal_witness:
  "aq_entries (control_queues (reply_waiting 2) 10) =
     [\<lparr>cc_signal = FR_CHANNEL_SIGNAL_DATA_DONE_WORKER, cc_ack = 1, cc_ch = 1\<rparr>] \<and>
   sequence (master_end (reply_waiting 2) 1) = 1 \<and>
   fr_channel_service_aq debug_build (reply_waiting 2) 10 300 None =
     Inr (FR_CHANNEL_DATA_READY_RECEIVER, Some 1,
          (reply_waiting 2)
            \<lparr>control_queues := (control_queues (reply_waiting 2))(10 := fr_atomic_queue_create 2)\<rparr>) \<and>
   aq_entries (control_queues (worker_asleep 2) 10) =
     [\<lparr>cc_signal = FR_CHANNEL_SIGNAL_WORKER_SLEEPING, cc_ack = 1, cc_ch = 1\<rparr>] \<and>
   sequence (master_end (worker_asleep 2) 1) = 2 \<and>
   map_sum id fst (fr_channel_service_aq debug_build (worker_asleep 2) 10 400 None) =
     Inr FR_CHANNEL_NOOP \<and>
   num_resignals
     (master_end (memory3 (worker_asleep 2)
        (fr_channel_service_aq debug_build (worker_asleep 2) 10 400 None)) 1) = 1 \<and>
   aq_entries
     (control_queues (memory3 (worker_asleep 2)
        (fr_channel_service_aq debug_build (worker_asleep 2) 10 400 None)) 20) =
     [\<lparr>cc_signal = FR_CHANNEL_SIGNAL_DATA_TO_WORKER, cc_ack = 0, cc_ch = 1\<rparr>,
      \<lparr>cc_signal = FR_CHANNEL_SIGNAL_DATA_TO_WORKER, cc_ack = 0, cc_ch = 1\<rparr>]"
proof -
  let ?done = "\<lparr>cc_signal = FR_CHANNEL_SIGNAL_DATA_DONE_WORKER, cc_ack = 1, cc_ch = 1\<rparr>"
  let ?sleep = "\<lparr>cc_signal = FR_CHANNEL_SIGNAL_WORKER_SLEEPING, cc_ack = 1, cc_ch = 1\<rparr>"
  let ?wd = "(reply_waiting 2)
               \<lparr>control_queues := (control_queues (reply_waiting 2))(10 := fr_atomic_queue_create 2)\<rparr>"
  let ?ws = "(worker_asleep 2)
               \<lparr>control_queues := (control_queues (worker_asleep 2))(10 := fr_atomic_queue_create 2)\<rparr>"
  have qd: "aq_entries (control_queues (reply_waiting 2) 10) = [?done]"
    and sd: "sequence (master_end (reply_waiting 2) 1) = 1"
    and popd: "fr_control_message_pop (reply_waiting 2) 10 = Some (?done, ?wd)"
    and sigd: "cc_signal ?done = FR_CHANNEL_SIGNAL_DATA_DONE_WORKER \<and>
                 FR_CHANNEL_DATA_READY_RECEIVER = FR_CHANNEL_DATA_READY_RECEIVER \<or>
               cc_signal ?done = FR_CHANNEL_SIGNAL_WORKER_SLEEPING \<and>
                 FR_CHANNEL_DATA_READY_RECEIVER = FR_CHANNEL_NOOP"
    and ownd: "rad_assert debug_build (10 = aq_control (worker_end ?wd (cc_ch ?done)))"
    and eqd: "cc_ack ?done = sequence (master_end ?wd (cc_ch ?done))"
    by (simp_all add: fixture_defs run_defs)
  have qs: "aq_entries (control_queues (worker_asleep 2) 10) = [?sleep]"
    and ss: "sequence (master_end (worker_asleep 2) 1) = 2"
    and pops: "fr_control_message_pop (worker_asleep 2) 10 = Some (?sleep, ?ws)"
    and sigs: "cc_signal ?sleep = FR_CHANNEL_SIGNAL_DATA_DONE_WORKER \<and>
                 FR_CHANNEL_NOOP = FR_CHANNEL_DATA_READY_RECEIVER \<or>
               cc_signal ?sleep = FR_CHANNEL_SIGNAL_WORKER_SLEEPING \<and>
                 FR_CHANNEL_NOOP = FR_CHANNEL_NOOP"
    and owns: "rad_assert debug_build (10 = aq_control (worker_end ?ws (cc_ch ?sleep)))"
    and lts: "cc_ack ?sleep < sequence (master_end ?ws (cc_ch ?sleep))"
    by (simp_all add: fixture_defs run_defs)
  have 1: "fr_channel_service_aq debug_build (reply_waiting 2) 10 300 None =
             Inr (FR_CHANNEL_DATA_READY_RECEIVER, Some (cc_ch ?done), ?wd)"
    using fr_channel_service_aq_resignal [OF popd sigd ownd, of 300 None] eqd by blast
  have 2: "fr_channel_service_aq debug_build (worker_asleep 2) 10 400 None =
             (case fr_channel_data_ready
                      (store_end ?ws (cc_ch ?sleep) TO_WORKER
                         ((master_end ?ws (cc_ch ?sleep))
                            \<lparr>num_resignals := num_resignals (master_end ?ws (cc_ch ?sleep)) + 1\<rparr>))
                      (cc_ch ?sleep) 400 TO_WORKER FR_CHANNEL_SIGNAL_DATA_TO_WORKER of
                 Inl f \<Rightarrow> Inl f
               | Inr (rcode, w3) \<Rightarrow>
                   Inr (if rcode < 0 then FR_CHANNEL_ERROR else FR_CHANNEL_NOOP,
                        Some (cc_ch ?sleep), w3))"
    using fr_channel_service_aq_resignal [OF pops sigs owns, of 400 None] lts by blast
  have 3: "map_sum id fst (fr_channel_service_aq debug_build (worker_asleep 2) 10 400 None) =
             Inr FR_CHANNEL_NOOP \<and>
           num_resignals
             (master_end (memory3 (worker_asleep 2)
                (fr_channel_service_aq debug_build (worker_asleep 2) 10 400 None)) 1) = 1 \<and>
           aq_entries
             (control_queues (memory3 (worker_asleep 2)
                (fr_channel_service_aq debug_build (worker_asleep 2) 10 400 None)) 20) =
             [\<lparr>cc_signal = FR_CHANNEL_SIGNAL_DATA_TO_WORKER, cc_ack = 0, cc_ch = 1\<rparr>,
              \<lparr>cc_signal = FR_CHANNEL_SIGNAL_DATA_TO_WORKER, cc_ack = 0, cc_ch = 1\<rparr>]"
    unfolding 2 by (simp add: fixture_defs run_defs)
  have c: "cc_ch ?done = 1"
    by simp
  show ?thesis
    using qd sd 1 qs ss 3 unfolding c by blast
qed

theorem worker_asleep_resignal_fails:
  "aq_entries (control_queues (worker_asleep 1) 10) =
     [\<lparr>cc_signal = FR_CHANNEL_SIGNAL_WORKER_SLEEPING, cc_ack = 1, cc_ch = 1\<rparr>] \<and>
   sequence (master_end (worker_asleep 1) 1) = 2 \<and>
   length (aq_entries (control_queues (worker_asleep 1) 20)) =
     aq_size (control_queues (worker_asleep 1) 20) \<and>
   map_sum id fst (fr_channel_service_aq debug_build (worker_asleep 1) 10 400 None) =
     Inr FR_CHANNEL_ERROR \<and>
   num_resignals
     (master_end (memory3 (worker_asleep 1)
        (fr_channel_service_aq debug_build (worker_asleep 1) 10 400 None)) 1) = 1 \<and>
   control_queues (memory3 (worker_asleep 1)
        (fr_channel_service_aq debug_build (worker_asleep 1) 10 400 None)) 20 =
     control_queues (worker_asleep 1) 20"
  by (simp add: fixture_defs run_defs)

subsection \<open>The active flag\<close>

text \<open>
  C6. The send operations (\<^verbatim>\<open>fr_channel_send_request\<close> and
  \<^verbatim>\<open>fr_channel_send_reply\<close>) neither read nor write the active flag: on a channel whose
  flag is false they return the code and the piggybacked message, push the message and
  change the memory exactly as on the same channel with the flag true, and the flag
  stays false.
\<close>

theorem fr_channel_send_ignores_active:
  "fr_channel_send_request b (store_active w ch False) ch cd p =
     keep_active False ch (fr_channel_send_request b (store_active w ch True) ch cd p) \<and>
   fr_channel_send_reply b (store_active w ch False) ch cd =
     keep_active False ch (fr_channel_send_reply b (store_active w ch True) ch cd)"
proof -
  have "store_active (store_active w ch True) ch False = store_active w ch False"
    by (simp add: store_active_def store_channel_def)
  then show ?thesis
    using send_request_active [of b "store_active w ch True" ch False cd p]
          send_reply_active [of b "store_active w ch True" ch False cd]
    by simp
qed

theorem fr_channel_send_ignores_active_witness:
  "fr_channel_send_request debug_build (store_active (channel_opened 2) 1 False) 1 (message 100 0 0) None =
     keep_active False 1
       (fr_channel_send_request debug_build (store_active (channel_opened 2) 1 True) 1
          (message 100 0 0) None)"
  using fr_channel_send_ignores_active [of debug_build "channel_opened 2" 1 "message 100 0 0" None]
  by blast

theorem request_sent_on_closed_channel:
  "\<not> fr_channel_active (closed_once 2) 1 \<and>
   map_sum id fst (fr_channel_send_request debug_build (closed_once 2) 1 (message 100 0 0) None) =
     Inr 0 \<and>
   aq_entries (aq (master_end (closed_once 2) 1)) = [] \<and>
   aq_entries
     (aq (master_end
        (memory3 (closed_once 2)
           (fr_channel_send_request debug_build (closed_once 2) 1 (message 100 0 0) None)) 1)) =
     [(message 100 0 0)\<lparr>live_sequence := 1, live_ack := 0\<rparr>] \<and>
   sequence
     (master_end
        (memory3 (closed_once 2)
           (fr_channel_send_request debug_build (closed_once 2) 1 (message 100 0 0) None)) 1) = 1"
  by (simp add: fr_channel_active_def fixture_defs run_defs)

subsection \<open>Closing twice\<close>

text \<open>
  C7. A second call of close from the same side
  (\<^verbatim>\<open>fr_channel_signal_worker_close\<close> on the master side,
  \<^verbatim>\<open>fr_channel_worker_ack_close\<close> on the worker side) leaves the channels as they are
  after the first call, with the active flag false, but it posts one more \<open>CLOSE\<close>
  control record: when the control queue of the peer has room for both, the peer finds
  two \<open>CLOSE\<close> records after the two calls.
\<close>

theorem fr_channel_close_twice:
  "(control (master_end w ch) = Some ctl \<and>
    length (aq_entries (control_queues w (c_aq ctl))) + 2 \<le> aq_size (control_queues w (c_aq ctl)) \<longrightarrow>
    (\<exists>w1 w2. fr_channel_signal_worker_close w ch = Inr (0, w1) \<and>
             fr_channel_signal_worker_close w1 ch = Inr (0, w2) \<and>
             \<not> active (channels w1 ch) \<and>
             channels w2 = channels w1 \<and>
             aq_entries (control_queues w2 (c_aq ctl)) =
               aq_entries (control_queues w (c_aq ctl)) @
                 [\<lparr>cc_signal = FR_CHANNEL_SIGNAL_CLOSE, cc_ack = 0, cc_ch = ch\<rparr>,
                  \<lparr>cc_signal = FR_CHANNEL_SIGNAL_CLOSE, cc_ack = 0, cc_ch = ch\<rparr>])) \<and>
   (control (worker_end w ch) = Some ctl \<and>
    length (aq_entries (control_queues w (c_aq ctl))) + 2 \<le> aq_size (control_queues w (c_aq ctl)) \<longrightarrow>
    (\<exists>w1 w2. fr_channel_worker_ack_close w ch = Inr (0, w1) \<and>
             fr_channel_worker_ack_close w1 ch = Inr (0, w2) \<and>
             \<not> active (channels w1 ch) \<and>
             channels w2 = channels w1 \<and>
             aq_entries (control_queues w2 (c_aq ctl)) =
               aq_entries (control_queues w (c_aq ctl)) @
                 [\<lparr>cc_signal = FR_CHANNEL_SIGNAL_CLOSE, cc_ack = 1, cc_ch = ch\<rparr>,
                  \<lparr>cc_signal = FR_CHANNEL_SIGNAL_CLOSE, cc_ack = 1, cc_ch = ch\<rparr>]))"
  by (simp add: fr_channel_signal_worker_close_def fr_channel_worker_ack_close_def
        fr_control_message_send_def fr_atomic_queue_push_def store_active_def store_channel_def
        end_number_def Let_def)

theorem fr_channel_close_twice_witness:
  "control (master_end (channel_opened 2) 1) = Some \<lparr>c_kq = 4, c_aq = 20\<rparr> \<and>
   length (aq_entries (control_queues (channel_opened 2) 20)) + 2
     \<le> aq_size (control_queues (channel_opened 2) 20) \<and>
   (\<exists>w1 w2. fr_channel_signal_worker_close (channel_opened 2) 1 = Inr (0, w1) \<and>
            fr_channel_signal_worker_close w1 1 = Inr (0, w2) \<and>
            \<not> active (channels w1 1) \<and>
            channels w2 = channels w1 \<and>
            aq_entries (control_queues w2 20) =
              aq_entries (control_queues (channel_opened 2) 20) @
                [\<lparr>cc_signal = FR_CHANNEL_SIGNAL_CLOSE, cc_ack = 0, cc_ch = 1\<rparr>,
                 \<lparr>cc_signal = FR_CHANNEL_SIGNAL_CLOSE, cc_ack = 0, cc_ch = 1\<rparr>]) \<and>
   control (worker_end (channel_opened 2) 1) = Some \<lparr>c_kq = 3, c_aq = 10\<rparr> \<and>
   length (aq_entries (control_queues (channel_opened 2) 10)) + 2
     \<le> aq_size (control_queues (channel_opened 2) 10) \<and>
   (\<exists>w1 w2. fr_channel_worker_ack_close (channel_opened 2) 1 = Inr (0, w1) \<and>
            fr_channel_worker_ack_close w1 1 = Inr (0, w2) \<and>
            \<not> active (channels w1 1) \<and>
            channels w2 = channels w1 \<and>
            aq_entries (control_queues w2 10) =
              aq_entries (control_queues (channel_opened 2) 10) @
                [\<lparr>cc_signal = FR_CHANNEL_SIGNAL_CLOSE, cc_ack = 1, cc_ch = 1\<rparr>,
                 \<lparr>cc_signal = FR_CHANNEL_SIGNAL_CLOSE, cc_ack = 1, cc_ch = 1\<rparr>])"
proof -
  have cm: "control (master_end (channel_opened 2) 1) = Some \<lparr>c_kq = 4, c_aq = 20\<rparr>"
    and rm: "length (aq_entries (control_queues (channel_opened 2) (c_aq \<lparr>c_kq = 4, c_aq = 20\<rparr>))) + 2
               \<le> aq_size (control_queues (channel_opened 2) (c_aq \<lparr>c_kq = 4, c_aq = 20\<rparr>))"
    and cw: "control (worker_end (channel_opened 2) 1) = Some \<lparr>c_kq = 3, c_aq = 10\<rparr>"
    and rw: "length (aq_entries (control_queues (channel_opened 2) (c_aq \<lparr>c_kq = 3, c_aq = 10\<rparr>))) + 2
               \<le> aq_size (control_queues (channel_opened 2) (c_aq \<lparr>c_kq = 3, c_aq = 10\<rparr>))"
    by (simp_all add: fixture_defs run_defs)
  show ?thesis
    using cm rm cw rw
          fr_channel_close_twice [where w = "channel_opened 2" and ch = 1
            and ctl = "\<lparr>c_kq = 4, c_aq = 20\<rparr>"]
          fr_channel_close_twice [where w = "channel_opened 2" and ch = 1
            and ctl = "\<lparr>c_kq = 3, c_aq = 10\<rparr>"]
    by simp
qed

theorem second_close_posts_second_record:
  "fr_channel_signal_worker_close (channel_created 2) 1 = Inr (0, closed_once 2) \<and>
   fr_channel_signal_worker_close (closed_once 2) 1 = Inr (0, closed_twice 2) \<and>
   aq_entries (control_queues (closed_once 2) 20) =
     [\<lparr>cc_signal = FR_CHANNEL_SIGNAL_CLOSE, cc_ack = 0, cc_ch = 1\<rparr>] \<and>
   aq_entries (control_queues (closed_twice 2) 20) =
     [\<lparr>cc_signal = FR_CHANNEL_SIGNAL_CLOSE, cc_ack = 0, cc_ch = 1\<rparr>,
      \<lparr>cc_signal = FR_CHANNEL_SIGNAL_CLOSE, cc_ack = 0, cc_ch = 1\<rparr>]"
  by (simp add: fixture_defs run_defs)

end
